theory Spec2Isabelle
  imports Main
begin

section \<open>Values and exceptions\<close>

text \<open>
  The bot's bootstrap code (\<^verbatim>\<open>bot/bot.py\<close>) works on three kinds of data: the dictionary
  read from \<^verbatim>\<open>.env\<close>, the document parsed from \<^verbatim>\<open>config/app.yml\<close>, and the messages
  and events it emits. Python dictionaries are association lists here (insertion order
  is kept, as in Python); a raised exception is the \<open>Inl\<close> branch of a sum.
\<close>

datatype error =
    SystemExit string
  | KeyError string
  | TypeError
  | AttributeError
  | DownloadError string
  | ParseError string
  | Boto3Error string

text \<open>
  \<^verbatim>\<open>sys.exit(arg)\<close> with a string argument prints the string to standard error and
  leaves the process with status 1; an exception nobody catches prints its traceback and
  leaves with status 1 as well.
\<close>

fun exit_status :: "error \<Rightarrow> nat" where
  "exit_status (SystemExit msg) = 1"
| "exit_status e = 1"

fun stderr_text :: "error \<Rightarrow> string" where
  "stderr_text (SystemExit msg) = msg"
| "stderr_text e = ''Traceback (most recent call last)''"

text \<open>A parsed YAML document. Mappings have string keys.\<close>

datatype yaml =
    YNull
  | YBool bool
  | YInt int
  | YStr string
  | YSeq "yaml list"
  | YMap "(string \<times> yaml) list"

type_synonym 'v dict = "(string \<times> 'v) list"

definition keys :: "'v dict \<Rightarrow> string set" where
  "keys d = fst ` set d"

text \<open>\<^verbatim>\<open>d[k]\<close> on a dictionary (and on a \<^verbatim>\<open>UserDict\<close>): the value, or \<^verbatim>\<open>KeyError\<close>.\<close>

definition getitem :: "'v dict \<Rightarrow> string \<Rightarrow> error + 'v" where
  "getitem d k = (case map_of d k of None \<Rightarrow> Inl (KeyError k) | Some v \<Rightarrow> Inr v)"

text \<open>
  \<^verbatim>\<open>d[k] = v\<close>: an existing key keeps its place and takes the new value, a new key goes
  to the end.
\<close>

fun setitem :: "'v dict \<Rightarrow> string \<Rightarrow> 'v \<Rightarrow> 'v dict" where
  "setitem [] k v = [(k, v)]"
| "setitem ((k', v') # d) k v =
     (if k' = k then (k, v) # d else (k', v') # setitem d k v)"

text \<open>\<^verbatim>\<open>d.update(other)\<close>: every item of \<open>other\<close> is stored into \<open>d\<close>, in order.\<close>

fun dict_update :: "'v dict \<Rightarrow> 'v dict \<Rightarrow> 'v dict" where
  "dict_update d [] = d"
| "dict_update d ((k, v) # other) = dict_update (setitem d k v) other"

text \<open>
  \<^verbatim>\<open>v[k]\<close> with a string key on a parsed value: only a mapping can be indexed so; a
  string, a sequence or a scalar raises \<^verbatim>\<open>TypeError\<close>.
\<close>

fun yaml_getitem :: "yaml \<Rightarrow> string \<Rightarrow> error + yaml" where
  "yaml_getitem (YMap d) k = getitem d k"
| "yaml_getitem v k = Inl TypeError"

section \<open>Env\<close>

text \<open>
  \<^verbatim>\<open>dotenv_values(".env")\<close> gives a dictionary from key to value; a key written without
  \<^verbatim>\<open>=\<close> has the value \<^verbatim>\<open>None\<close>.
\<close>

type_synonym env = "string option dict"

definition REQUIRED_KEYS :: "string list" where
  "REQUIRED_KEYS = [''S3_REGION'', ''S3_BUCKET'', ''AWS_KEY'', ''AWS_SECRET'']"

text \<open>The required keys as the specification's external-interface section lists them.\<close>

definition spec_required_keys :: "string list" where
  "spec_required_keys =
     [''S3_REGION'', ''S3_BUCKET'', ''AWS_KEY'', ''AWS_SECRET'',
      ''DISCORD_CLIENT_ID'', ''DISCORD_TOKEN'', ''REDDIT_BOT_CLIENT_ID'', ''REDDIT_BOT_SECRET'']"

text \<open>
  \<^verbatim>\<open>f"{self.REQUIRED_KEYS} must be set in .env"\<close> formats the tuple with \<^verbatim>\<open>repr\<close>:
  each key between single quotes, separated by a comma and a space, in parentheses.
\<close>

definition repr_str :: "string \<Rightarrow> string" where
  "repr_str s = [CHR 0x27] @ s @ [CHR 0x27]"

fun join :: "string \<Rightarrow> string list \<Rightarrow> string" where
  "join sep [] = []"
| "join sep [x] = x"
| "join sep (x # y # ys) = x @ sep @ join sep (y # ys)"

definition repr_tuple :: "string list \<Rightarrow> string" where
  "repr_tuple ks =
     (case ks of
        [k] \<Rightarrow> ''('' @ repr_str k @ '',)''
      | _ \<Rightarrow> ''('' @ join '', '' (map repr_str ks) @ '')'')"

definition missing_keys_message :: "string" where
  "missing_keys_message = repr_tuple REQUIRED_KEYS @ '' must be set in .env''"

text \<open>
  \<^verbatim>\<open>warn_about_missing_keys\<close>: the set difference of the required keys and the loaded
  keys is truthy exactly when it is not empty.
\<close>

definition warn_about_missing_keys :: "env \<Rightarrow> error + unit" where
  "warn_about_missing_keys data =
     (if set REQUIRED_KEYS - keys data \<noteq> {} then Inl (SystemExit missing_keys_message)
      else Inr ())"

text \<open>\<^verbatim>\<open>Env.__init__\<close>, given what \<^verbatim>\<open>dotenv_values\<close> read.\<close>

definition Env_init :: "env \<Rightarrow> error + env" where
  "Env_init dotenv_values =
     (case warn_about_missing_keys dotenv_values of
        Inl e \<Rightarrow> Inl e
      | Inr u \<Rightarrow> Inr dotenv_values)"

section \<open>Storage\<close>

text \<open>
  The object store is an opaque fetch from object key to bytes, which may fail. The local
  filesystem is a map from path to content: a path is in its domain exactly when the
  file exists.
\<close>

type_synonym filesystem = "string \<rightharpoonup> string"

record storage =
  region_name :: "string option"
  aws_access_key_id :: "string option"
  aws_secret_access_key :: "string option"
  bucket_name :: "string option"
  download_file :: "string \<Rightarrow> error + string"

text \<open>Sequencing of calls that may raise: the first exception ends the computation.\<close>

definition bind_result :: "error + 'a \<Rightarrow> ('a \<Rightarrow> error + 'b) \<Rightarrow> error + 'b" where
  "bind_result r f = (case r of Inl e \<Rightarrow> Inl e | Inr x \<Rightarrow> f x)"

text \<open>
  The boto3 library is a parameter. \<^verbatim>\<open>boto3.resource\<close>, given the region and the two
  credentials, gives a session or raises; the session's \<^verbatim>\<open>Bucket\<close>, given the bucket
  name, gives the bucket's \<^verbatim>\<open>download_file\<close> or raises. Which values they refuse (a
  missing or an empty one, say) is the library's matter.
\<close>

type_synonym session = "string option \<Rightarrow> error + (string \<Rightarrow> error + string)"

type_synonym boto3 = "string option \<Rightarrow> string option \<Rightarrow> string option \<Rightarrow> error + session"

text \<open>
  \<^verbatim>\<open>Storage.__init__\<close>: the three lookups for the session, the call of
  \<^verbatim>\<open>boto3.resource\<close>, the lookup of the bucket name and the call of \<^verbatim>\<open>Bucket\<close>, in the
  order the source makes them; each may raise.
\<close>

definition Storage_init :: "env \<Rightarrow> boto3 \<Rightarrow> error + storage" where
  "Storage_init env boto3_resource =
     bind_result (getitem env ''S3_REGION'') (\<lambda>region.
     bind_result (getitem env ''AWS_KEY'') (\<lambda>key.
     bind_result (getitem env ''AWS_SECRET'') (\<lambda>secret.
     bind_result (boto3_resource region key secret) (\<lambda>session.
     bind_result (getitem env ''S3_BUCKET'') (\<lambda>bucket.
     bind_result (session bucket) (\<lambda>download.
       Inr \<lparr>region_name = region, aws_access_key_id = key,
            aws_secret_access_key = secret, bucket_name = bucket,
            download_file = download\<rparr>))))))"

text \<open>
  \<^verbatim>\<open>os.path.splitext\<close> on a POSIX path: the extension starts at the last dot, when that
  dot comes after the last slash and some character between the slash and the dot is
  not a dot; otherwise the extension is empty. \<^verbatim>\<open>rfind\<close> is \<open>-1\<close> when the character
  does not occur.
\<close>

definition rfind :: "string \<Rightarrow> char \<Rightarrow> int" where
  "rfind p c =
     (if c \<in> set p
      then int (length p) - 1 - int (length (takeWhile (\<lambda>x. x \<noteq> c) (rev p)))
      else - 1)"

definition splitext :: "string \<Rightarrow> string \<times> string" where
  "splitext p =
     (let sepIndex = rfind p (CHR ''/'');
          dotIndex = rfind p (CHR ''.'')
      in if dotIndex > sepIndex \<and>
            list_ex (\<lambda>x. x \<noteq> CHR ''.'')
              (take (nat (dotIndex - (sepIndex + 1))) (drop (nat (sepIndex + 1)) p))
         then (take (nat dotIndex) p, drop (nat dotIndex) p)
         else (p, []))"

text \<open>
  \<^verbatim>\<open>Storage.get\<close> is a generator-based context manager; \<open>Storage_get\<close> is the whole
  \<^verbatim>\<open>with storage.get(path) as file: body\<close> statement. \<open>tmp\<close> is the name
  \<^verbatim>\<open>NamedTemporaryFile\<close> picks before the suffix; the file exists, empty, from its
  creation until \<^verbatim>\<open>temporary_file.close()\<close>. The statements run in the source's order:
  \<^enum> the temporary file is created;
  \<^enum> \<^verbatim>\<open>download_file\<close> runs, outside any \<^verbatim>\<open>try\<close>: when it raises, the exception leaves
    \<^verbatim>\<open>get\<close> at once and no statement of \<^verbatim>\<open>get\<close> closes the temporary file;
  \<^enum> the file is opened and handed to the body, inside \<^verbatim>\<open>try\<close>;
  \<^enum> \<^verbatim>\<open>finally\<close> closes the temporary file, which deletes it, whether the body
    returned or raised.
  The body is given the content it can read from the file.
\<close>

definition Storage_get ::
  "storage \<Rightarrow> string \<Rightarrow> string \<Rightarrow> (string \<Rightarrow> error + 'a) \<Rightarrow> filesystem
     \<Rightarrow> (error + 'a) \<times> filesystem" where
  "Storage_get st path tmp body fs =
     (let (filename, file_extension) = splitext path;
          name = tmp @ file_extension;
          fs1 = fs(name \<mapsto> [])
      in case download_file st path of
           Inl e \<Rightarrow> (Inl e, fs1)
         | Inr bytes \<Rightarrow>
             (let fs2 = fs1(name \<mapsto> bytes);
                  result = body bytes
              in (result, fs2(name := None))))"

text \<open>The path of the temporary file that \<open>Storage_get\<close> creates.\<close>

definition temporary_file_name :: "string \<Rightarrow> string \<Rightarrow> string" where
  "temporary_file_name path tmp = tmp @ snd (splitext path)"

section \<open>Config\<close>

type_synonym config = "yaml dict"

text \<open>
  \<^verbatim>\<open>Config.load_config\<close>: the YAML parser is a parameter, from bytes to a parsed
  document or a parse failure.
\<close>

definition load_config ::
  "storage \<Rightarrow> (string \<Rightarrow> error + yaml) \<Rightarrow> string \<Rightarrow> filesystem
     \<Rightarrow> (error + yaml) \<times> filesystem" where
  "load_config st yaml_load tmp fs = Storage_get st ''config/app.yml'' tmp yaml_load fs"

definition of_env :: "string option \<Rightarrow> yaml" where
  "of_env v = (case v of None \<Rightarrow> YNull | Some s \<Rightarrow> YStr s)"

text \<open>
  \<^verbatim>\<open>Config.load_env\<close>: the dictionary literal evaluates its four lookups from top to
  bottom; the first key that \<open>env\<close> lacks raises \<^verbatim>\<open>KeyError\<close>.
\<close>

definition load_env :: "env \<Rightarrow> error + config" where
  "load_env env =
     bind_result (getitem env ''DISCORD_CLIENT_ID'') (\<lambda>discord_client_id.
     bind_result (getitem env ''DISCORD_TOKEN'') (\<lambda>discord_token.
     bind_result (getitem env ''REDDIT_BOT_CLIENT_ID'') (\<lambda>reddit_client_id.
     bind_result (getitem env ''REDDIT_BOT_SECRET'') (\<lambda>reddit_secret.
       Inr [(''discord'', YMap [(''client_id'', of_env discord_client_id),
                               (''token'', of_env discord_token)]),
            (''reddit'', YMap [(''client_id'', of_env reddit_client_id),
                              (''secret'', of_env reddit_secret)])]))))"

text \<open>
  \<^verbatim>\<open>self.data.update(self.load_env(env))\<close>: the attribute \<^verbatim>\<open>update\<close> is looked up first,
  so a parsed document that is not a mapping raises \<^verbatim>\<open>AttributeError\<close> before
  \<^verbatim>\<open>load_env\<close> runs.
\<close>

definition merge :: "env \<Rightarrow> yaml \<Rightarrow> error + config" where
  "merge env data =
     (case data of
        YMap d \<Rightarrow> bind_result (load_env env) (\<lambda>override. Inr (dict_update d override))
      | _ \<Rightarrow> Inl AttributeError)"

text \<open>\<^verbatim>\<open>Config.__init__\<close>.\<close>

definition Config_init ::
  "env \<Rightarrow> storage \<Rightarrow> (string \<Rightarrow> error + yaml) \<Rightarrow> string \<Rightarrow> filesystem
     \<Rightarrow> (error + config) \<times> filesystem" where
  "Config_init env st yaml_load tmp fs =
     (case load_config st yaml_load tmp fs of
        (Inl e, fs') \<Rightarrow> (Inl e, fs')
      | (Inr data, fs') \<Rightarrow> (merge env data, fs'))"

section \<open>Bot\<close>

text \<open>
  The invocation context carries the channel the command came from. A text channel of a
  guild has a name; a direct-message channel has no \<^verbatim>\<open>name\<close> attribute, so reading
  \<^verbatim>\<open>ctx.channel.name\<close> there raises \<^verbatim>\<open>AttributeError\<close>. \<^verbatim>\<open>ctx.send(text)\<close> is recorded as
  one entry, channel and text, appended to the list of messages sent so far.
\<close>

datatype channel = TextChannel string | DMChannel

record Context =
  channel :: channel

fun channel_name :: "channel \<Rightarrow> error + string" where
  "channel_name (TextChannel name) = Inr name"
| "channel_name DMChannel = Inl AttributeError"

type_synonym outbox = "(channel \<times> string) list"

datatype task = HeartbeatLoop

record bot =
  bot_env :: env
  bot_storage :: storage
  bot_config :: config
  command_prefix :: yaml
  cogs :: "string list"
  new_members :: "(string \<times> string) list"
  heartbeat_task :: nat

text \<open>\<^verbatim>\<open>self.config[section][name]\<close>, as every method of the bot reads its settings.\<close>

definition config_path :: "config \<Rightarrow> string \<Rightarrow> string \<Rightarrow> error + yaml" where
  "config_path cfg section name =
     bind_result (getitem cfg section) (\<lambda>sub. yaml_getitem sub name)"

text \<open>
  \<^verbatim>\<open>Bot.__init__\<close>: reads the command prefix, registers the cogs in the source's order,
  starts with no new members, and creates one task for \<^verbatim>\<open>heartbeat_loop\<close> on the event
  loop, whose tasks are the list \<open>tasks\<close>. The handle kept in \<open>heartbeat_task\<close> is the
  position of the new task.
\<close>

definition Bot_init ::
  "env \<Rightarrow> storage \<Rightarrow> config \<Rightarrow> task list \<Rightarrow> error + (bot \<times> task list)" where
  "Bot_init env st cfg tasks =
     bind_result (config_path cfg ''commands'' ''prefix'') (\<lambda>prefix.
       Inr (\<lparr>bot_env = env, bot_storage = st, bot_config = cfg,
             command_prefix = prefix,
             cogs = [''PresenceCog'', ''WelcomeCog'', ''RolerCog'', ''AfterdarkCog'',
                     ''RealtalkCog'', ''ActivityCog'', ''LurkersCog'', ''AnimeCog'',
                     ''AnnoyingCog'', ''NoveltyCog''],
             new_members = [],
             heartbeat_task = length tasks\<rparr>,
            tasks @ [HeartbeatLoop]))"

text \<open>\<^verbatim>\<open>Bot.create\<close>.\<close>

definition Bot_create ::
  "env \<Rightarrow> boto3 \<Rightarrow> (string \<Rightarrow> error + yaml) \<Rightarrow> string
     \<Rightarrow> filesystem \<Rightarrow> task list \<Rightarrow> (error + (bot \<times> task list)) \<times> filesystem" where
  "Bot_create dotenv_values boto3_resource yaml_load tmp fs tasks =
     (case Env_init dotenv_values of
        Inl e \<Rightarrow> (Inl e, fs)
      | Inr env \<Rightarrow>
          (case Storage_init env boto3_resource of
             Inl e \<Rightarrow> (Inl e, fs)
           | Inr st \<Rightarrow>
               (case Config_init env st yaml_load tmp fs of
                  (Inl e, fs') \<Rightarrow> (Inl e, fs')
                | (Inr cfg, fs') \<Rightarrow> (Bot_init env st cfg tasks, fs'))))"

text \<open>
  \<^verbatim>\<open>check_meta_channel\<close> and \<^verbatim>\<open>check_bot_channel\<close>: the left operand
  \<^verbatim>\<open>ctx.channel.name\<close> is evaluated first, then the configured value is looked up; either
  may raise. Python's \<^verbatim>\<open>==\<close> between the channel name, a string, and the configured
  value is true exactly when the value is that same string. The functions take no state
  and return none.
\<close>

definition check_meta_channel :: "config \<Rightarrow> Context \<Rightarrow> error + bool" where
  "check_meta_channel cfg ctx =
     bind_result (channel_name (channel ctx)) (\<lambda>name.
     bind_result (config_path cfg ''channels'' ''meta'') (\<lambda>meta.
       Inr (YStr name = meta)))"

definition check_bot_channel :: "config \<Rightarrow> Context \<Rightarrow> error + bool" where
  "check_bot_channel cfg ctx =
     bind_result (channel_name (channel ctx)) (\<lambda>name.
     bind_result (config_path cfg ''channels'' ''bot'') (\<lambda>b.
       Inr (YStr name = b)))"

text \<open>
  An f-string formats a string as itself; for any other value it calls Python's
  built-in \<^verbatim>\<open>str\<close>, a parameter here.
\<close>

fun format_value :: "(yaml \<Rightarrow> string) \<Rightarrow> yaml \<Rightarrow> string" where
  "format_value py_str (YStr s) = s"
| "format_value py_str v = py_str v"

text \<open>\<^verbatim>\<open>warn_meta_channel\<close> and \<^verbatim>\<open>warn_bot_channel\<close>, with the messages sent so far.\<close>

definition warn_meta_channel ::
  "(yaml \<Rightarrow> string) \<Rightarrow> config \<Rightarrow> Context \<Rightarrow> outbox \<Rightarrow> (error + bool) \<times> outbox" where
  "warn_meta_channel py_str cfg ctx sent =
     (case check_meta_channel cfg ctx of
        Inl e \<Rightarrow> (Inl e, sent)
      | Inr ok \<Rightarrow>
          if \<not> ok then
            (case config_path cfg ''channels'' ''meta'' of
               Inl e \<Rightarrow> (Inl e, sent)
             | Inr meta \<Rightarrow>
                 (Inr False,
                  sent @ [(channel ctx, ''take it to #'' @ format_value py_str meta)]))
          else (Inr True, sent))"

definition warn_bot_channel ::
  "(yaml \<Rightarrow> string) \<Rightarrow> config \<Rightarrow> Context \<Rightarrow> outbox \<Rightarrow> (error + bool) \<times> outbox" where
  "warn_bot_channel py_str cfg ctx sent =
     (case check_bot_channel cfg ctx of
        Inl e \<Rightarrow> (Inl e, sent)
      | Inr ok \<Rightarrow>
          if \<not> ok then
            (case config_path cfg ''channels'' ''bot'' of
               Inl e \<Rightarrow> (Inl e, sent)
             | Inr b \<Rightarrow>
                 (Inr False,
                  sent @ [(channel ctx, ''take it to #'' @ format_value py_str b)]))
          else (Inr True, sent))"

subsection \<open>The heartbeat loop\<close>

text \<open>
  The coroutine's own steps are its trace: the wait for readiness, each dispatch and
  each sleep with its number of seconds. The gateway is what the coroutine observes:
  whether \<^verbatim>\<open>wait_until_ready\<close> ever returns, and the answer of the \<open>i\<close>-th call of
  \<^verbatim>\<open>is_closed\<close>. The loop may run forever, so it is run with fuel, one unit for each
  test of the loop condition; when the fuel is gone the coroutine is still suspended.
\<close>

datatype action = WaitUntilReady | Dispatch string | Sleep nat

datatype status = Suspended | Returned

record gateway =
  becomes_ready :: bool
  is_closed :: "nat \<Rightarrow> bool"

fun heartbeat_while :: "nat \<Rightarrow> (nat \<Rightarrow> bool) \<Rightarrow> nat \<Rightarrow> action list \<times> status" where
  "heartbeat_while 0 closed i = ([], Suspended)"
| "heartbeat_while (Suc fuel) closed i =
     (if \<not> closed i then
        (case heartbeat_while fuel closed (Suc i) of
           (trace, st) \<Rightarrow> (Dispatch ''heartbeat'' # Sleep 10 # trace, st))
      else ([], Returned))"

definition heartbeat_loop :: "nat \<Rightarrow> gateway \<Rightarrow> action list \<times> status" where
  "heartbeat_loop fuel gw =
     (if becomes_ready gw then
        (case heartbeat_while fuel (is_closed gw) 0 of
           (trace, st) \<Rightarrow> (WaitUntilReady # trace, st))
      else ([WaitUntilReady], Suspended))"

text \<open>The number of heartbeat events in a trace.\<close>

definition heartbeats :: "action list \<Rightarrow> nat" where
  "heartbeats trace = length (filter (\<lambda>a. a = Dispatch ''heartbeat'') trace)"

section \<open>Properties of Env\<close>

lemma missing_keys_message_text:
  "missing_keys_message =
     ''('S3_REGION', 'S3_BUCKET', 'AWS_KEY', 'AWS_SECRET') must be set in .env''"
  by (simp add: missing_keys_message_def repr_tuple_def REQUIRED_KEYS_def repr_str_def)

lemma getitem_present: "k \<in> keys d \<Longrightarrow> \<exists>v. getitem d k = Inr v"
proof -
  assume "k \<in> keys d"
  then have "k \<in> dom (map_of d)" by (simp add: keys_def dom_map_of_conv_image_fst)
  then obtain v where "map_of d k = Some v" by blast
  then show ?thesis by (simp add: getitem_def)
qed

lemma Env_init_cases:
  "Env_init d =
     (if set REQUIRED_KEYS \<subseteq> keys d then Inr d else Inl (SystemExit missing_keys_message))"
  by (auto simp: Env_init_def warn_about_missing_keys_def)

text \<open>
  C1, as stated, fails: the specification lists eight required keys, the source's
  \<^verbatim>\<open>REQUIRED_KEYS\<close> holds the four storage keys only. A secret file with the four storage
  keys and none of the gateway and third-party keys lacks required keys in the
  specification's sense, and \<^verbatim>\<open>Env()\<close> returns it as a usable mapping.
\<close>

theorem Env_init_eight_keys_counterexample:
  "set spec_required_keys -
     keys [(''S3_REGION'', Some ''us-east-1''), (''S3_BUCKET'', Some ''ehfbot''),
           (''AWS_KEY'', Some ''AKIA''), (''AWS_SECRET'', Some ''hunter2'')] \<noteq> {}
   \<and> Env_init [(''S3_REGION'', Some ''us-east-1''), (''S3_BUCKET'', Some ''ehfbot''),
               (''AWS_KEY'', Some ''AKIA''), (''AWS_SECRET'', Some ''hunter2'')]
     = Inr [(''S3_REGION'', Some ''us-east-1''), (''S3_BUCKET'', Some ''ehfbot''),
            (''AWS_KEY'', Some ''AKIA''), (''AWS_SECRET'', Some ''hunter2'')]"
  by (simp add: Env_init_cases spec_required_keys_def REQUIRED_KEYS_def keys_def)

text \<open>
  C1, amended: when the loaded key set misses at least one of the four keys of
  \<^verbatim>\<open>REQUIRED_KEYS\<close> (S3_REGION, S3_BUCKET, AWS_KEY, AWS_SECRET), \<^verbatim>\<open>Env()\<close> does not return:
  it leaves through \<^verbatim>\<open>sys.exit\<close> with a non-zero status, and the text on standard error
  lists the four required keys.
\<close>

theorem Env_init_missing_key_exits:
  assumes "set REQUIRED_KEYS - keys d \<noteq> {}"
  shows "\<exists>e. Env_init d = Inl e
           \<and> e = SystemExit missing_keys_message
           \<and> exit_status e \<noteq> 0
           \<and> stderr_text e =
               ''('S3_REGION', 'S3_BUCKET', 'AWS_KEY', 'AWS_SECRET') must be set in .env''
           \<and> (\<forall>env. Env_init d \<noteq> Inr env)"
  using assms
  by (simp add: Env_init_def warn_about_missing_keys_def missing_keys_message_text)

theorem Env_init_missing_key_exits_witness:
  "set REQUIRED_KEYS -
     keys [(''S3_REGION'', Some ''us-east-1''), (''AWS_KEY'', Some ''AKIA''),
           (''DISCORD_TOKEN'', Some ''xyz'')] \<noteq> {}
   \<and> Env_init [(''S3_REGION'', Some ''us-east-1''), (''AWS_KEY'', Some ''AKIA''),
               (''DISCORD_TOKEN'', Some ''xyz'')]
     = Inl (SystemExit
         ''('S3_REGION', 'S3_BUCKET', 'AWS_KEY', 'AWS_SECRET') must be set in .env'')"
proof -
  let ?d = "[(''S3_REGION'', Some ''us-east-1''), (''AWS_KEY'', Some ''AKIA''),
             (''DISCORD_TOKEN'', Some ''xyz'')] :: env"
  have h: "set REQUIRED_KEYS - keys ?d \<noteq> {}"
    by (simp add: REQUIRED_KEYS_def keys_def)
  from Env_init_missing_key_exits [OF h] h show ?thesis
    by (simp add: missing_keys_message_text)
qed

text \<open>
  C4, as stated, fails: the check compares key sets and never reads a value. A secret
  file in which a required key is present with the empty string (or with no value at
  all) is accepted.
\<close>

theorem Env_init_empty_value_counterexample:
  "map_of [(''S3_REGION'', Some ''''), (''S3_BUCKET'', Some ''ehfbot''),
           (''AWS_KEY'', None), (''AWS_SECRET'', Some ''hunter2'')] ''S3_REGION'' = Some (Some '''')
   \<and> Env_init [(''S3_REGION'', Some ''''), (''S3_BUCKET'', Some ''ehfbot''),
               (''AWS_KEY'', None), (''AWS_SECRET'', Some ''hunter2'')]
     = Inr [(''S3_REGION'', Some ''''), (''S3_BUCKET'', Some ''ehfbot''),
            (''AWS_KEY'', None), (''AWS_SECRET'', Some ''hunter2'')]"
  by (simp add: Env_init_cases REQUIRED_KEYS_def keys_def)

text \<open>
  C4, amended: at construction every key of \<^verbatim>\<open>REQUIRED_KEYS\<close> is present. \<^verbatim>\<open>Env()\<close>
  returns exactly when the four keys are among the loaded keys, and then it returns
  the loaded mapping unchanged; otherwise it leaves through \<^verbatim>\<open>sys.exit\<close> and there is
  no mapping to use. Values are not inspected.
\<close>

theorem Env_init_required_keys_present:
  "(Env_init d = Inr env \<longrightarrow>
      env = d \<and> set REQUIRED_KEYS \<subseteq> keys env
      \<and> (\<forall>k \<in> set REQUIRED_KEYS. \<exists>v. getitem env k = Inr v))
   \<and> (set REQUIRED_KEYS \<subseteq> keys d \<longrightarrow> Env_init d = Inr d)
   \<and> (\<not> set REQUIRED_KEYS \<subseteq> keys d \<longrightarrow> (\<exists>msg. Env_init d = Inl (SystemExit msg)))"
  by (auto simp: Env_init_cases split: if_splits intro: getitem_present)

theorem Env_init_required_keys_present_witness:
  "Env_init [(''AWS_SECRET'', Some ''hunter2''), (''S3_REGION'', Some ''eu''),
             (''S3_BUCKET'', None), (''AWS_KEY'', Some '''')]
     = Inr [(''AWS_SECRET'', Some ''hunter2''), (''S3_REGION'', Some ''eu''),
            (''S3_BUCKET'', None), (''AWS_KEY'', Some '''')]
   \<and> set REQUIRED_KEYS
       \<subseteq> keys [(''AWS_SECRET'', Some ''hunter2''), (''S3_REGION'', Some ''eu''),
                 (''S3_BUCKET'', None), (''AWS_KEY'', Some '''')]
   \<and> \<not> set REQUIRED_KEYS \<subseteq> keys [(''AWS_SECRET'', Some ''hunter2'')]
   \<and> (\<exists>msg. Env_init [(''AWS_SECRET'', Some ''hunter2'')] = Inl (SystemExit msg))"
proof -
  let ?d = "[(''AWS_SECRET'', Some ''hunter2''), (''S3_REGION'', Some ''eu''),
             (''S3_BUCKET'', None), (''AWS_KEY'', Some '''')] :: env"
  let ?d' = "[(''AWS_SECRET'', Some ''hunter2'')] :: env"
  have h: "set REQUIRED_KEYS \<subseteq> keys ?d"
    by (simp add: REQUIRED_KEYS_def keys_def)
  have h': "\<not> set REQUIRED_KEYS \<subseteq> keys ?d'"
    by (simp add: REQUIRED_KEYS_def keys_def)
  from Env_init_required_keys_present [of ?d ?d] Env_init_required_keys_present [of ?d' ?d'] h h'
  show ?thesis by blast
qed

section \<open>Properties of Storage\<close>

lemma splitext_config_app_yml: "splitext ''config/app.yml'' = (''config/app'', ''.yml'')"
  by (simp add: splitext_def rfind_def)

lemma Storage_get_download_raises:
  assumes "download_file st path = Inl e"
  shows "Storage_get st path tmp body fs = (Inl e, fs(temporary_file_name path tmp \<mapsto> []))"
  using assms
  by (simp add: Storage_get_def temporary_file_name_def split: prod.splits)

lemma Storage_get_body_runs:
  assumes "download_file st path = Inr bytes"
  shows "Storage_get st path tmp body fs = (body bytes, fs(temporary_file_name path tmp := None))"
  using assms
  by (simp add: Storage_get_def temporary_file_name_def split: prod.splits)

text \<open>
  When the download succeeds the temporary file is gone after the \<^verbatim>\<open>with\<close> statement,
  whether the body returned or raised: the \<^verbatim>\<open>finally\<close> clause covers both.
\<close>

lemma Storage_get_removes_file_after_body:
  assumes "download_file st path = Inr bytes"
  shows "temporary_file_name path tmp \<notin> dom (snd (Storage_get st path tmp body fs))"
  by (simp add: Storage_get_body_runs [OF assms])

text \<open>
  C2: the claim stands for the two paths that reach the \<^verbatim>\<open>try\<close> (lemma
  \<open>Storage_get_removes_file_after_body\<close>); the source breaks it on the third. The
  download runs before the \<^verbatim>\<open>try\<close>, so when the object store raises, here for the
  configuration fetch on an empty filesystem, the exception leaves \<^verbatim>\<open>get\<close> and the
  temporary file it created is still there.
\<close>

theorem load_config_download_failure_keeps_file:
  "load_config
     \<lparr>region_name = Some ''us-east-1'', aws_access_key_id = Some ''AKIA'',
      aws_secret_access_key = Some ''hunter2'', bucket_name = Some ''ehfbot'',
      download_file = (\<lambda>key. Inl (DownloadError ''NoSuchKey''))\<rparr>
     yaml_load ''/tmp/tmpk3x9ab'' Map.empty
   = (Inl (DownloadError ''NoSuchKey''), [''/tmp/tmpk3x9ab.yml'' \<mapsto> []])
   \<and> ''/tmp/tmpk3x9ab.yml'' \<in> dom (snd (load_config
        \<lparr>region_name = Some ''us-east-1'', aws_access_key_id = Some ''AKIA'',
         aws_secret_access_key = Some ''hunter2'', bucket_name = Some ''ehfbot'',
         download_file = (\<lambda>key. Inl (DownloadError ''NoSuchKey''))\<rparr>
        yaml_load ''/tmp/tmpk3x9ab'' Map.empty))"
  by (simp add: load_config_def Storage_get_def splitext_config_app_yml)

section \<open>Properties of Config\<close>

lemma map_of_setitem: "map_of (setitem d k v) = (map_of d)(k \<mapsto> v)"
  by (induction d k v rule: setitem.induct) auto

lemma setitem_same: "map_of d k = Some v \<Longrightarrow> setitem d k v = d"
  by (induction d k v rule: setitem.induct) (auto split: if_splits)

lemma keys_setitem: "keys (setitem d k v) = insert k (keys d)"
  by (induction d k v rule: setitem.induct) (auto simp: keys_def)

text \<open>
  \<^verbatim>\<open>dict.update\<close> with an argument whose keys are distinct, as those of a Python
  dictionary are: a key of the argument takes the argument's value, any other key keeps
  its own.
\<close>

lemma map_of_dict_update:
  "distinct (map fst other) \<Longrightarrow>
     map_of (dict_update d other) k =
       (case map_of other k of Some v \<Rightarrow> Some v | None \<Rightarrow> map_of d k)"
proof (induction other arbitrary: d)
  case Nil
  show ?case by simp
next
  case (Cons p other)
  obtain k' v' where p: "p = (k', v')" by (cases p)
  from Cons.prems p have fresh: "map_of other k' = None" and dist: "distinct (map fst other)"
    by (auto simp: map_of_eq_None_iff)
  show ?case
    using Cons.IH [OF dist, of "setitem d k' v'"] fresh
    by (simp add: p map_of_setitem split: option.splits)
qed

lemma load_env_Inr:
  assumes "load_env env = Inr override"
  obtains a b c e where
    "getitem env ''DISCORD_CLIENT_ID'' = Inr a" "getitem env ''DISCORD_TOKEN'' = Inr b"
    "getitem env ''REDDIT_BOT_CLIENT_ID'' = Inr c" "getitem env ''REDDIT_BOT_SECRET'' = Inr e"
    "override = [(''discord'', YMap [(''client_id'', of_env a), (''token'', of_env b)]),
                 (''reddit'', YMap [(''client_id'', of_env c), (''secret'', of_env e)])]"
  using assms
  by (auto simp: load_env_def bind_result_def split: sum.splits)

lemma merge_Inr:
  assumes "merge env data = Inr cfg"
  obtains d override where
    "data = YMap d" "load_env env = Inr override" "cfg = dict_update d override"
  using assms
  by (cases data) (auto simp: merge_def bind_result_def split: sum.splits)

text \<open>
  C3: the merge is shallow and top-level. Whenever it succeeds, a top-level key of the
  override mapping has the override's value in the result, whatever the parsed document
  held under that key, and a key absent from the override has what the parsed document
  had (or is absent, as there). On the specification's example the result is the one
  the specification gives, with \<^verbatim>\<open>discord.unused\<close> dropped.
\<close>

theorem merge_shallow_top_level:
  "(load_env env = Inr override \<and> merge env (YMap d) = Inr cfg \<longrightarrow>
      (\<forall>k v. map_of override k = Some v \<longrightarrow> map_of cfg k = Some v)
      \<and> (\<forall>k. map_of override k = None \<longrightarrow> map_of cfg k = map_of d k))
   \<and> merge [(''DISCORD_CLIENT_ID'', Some ''abc''), (''DISCORD_TOKEN'', Some ''xyz''),
            (''REDDIT_BOT_CLIENT_ID'', Some ''r1''), (''REDDIT_BOT_SECRET'', Some ''s1'')]
        (YMap [(''commands'', YMap [(''prefix'', YStr ''!'')]),
               (''discord'', YMap [(''unused'', YBool True)])])
     = Inr [(''commands'', YMap [(''prefix'', YStr ''!'')]),
            (''discord'', YMap [(''client_id'', YStr ''abc''), (''token'', YStr ''xyz'')]),
            (''reddit'', YMap [(''client_id'', YStr ''r1''), (''secret'', YStr ''s1'')])]"
proof (intro conjI impI)
  assume h: "load_env env = Inr override \<and> merge env (YMap d) = Inr cfg"
  then have ov: "load_env env = Inr override" and m: "merge env (YMap d) = Inr cfg"
    by simp_all
  from ov have dist: "distinct (map fst override)"
    by (rule load_env_Inr) simp
  from m ov have cfg: "cfg = dict_update d override"
    by (simp add: merge_def bind_result_def)
  show "\<forall>k v. map_of override k = Some v \<longrightarrow> map_of cfg k = Some v"
    by (simp add: cfg map_of_dict_update [OF dist])
  show "\<forall>k. map_of override k = None \<longrightarrow> map_of cfg k = map_of d k"
    by (simp add: cfg map_of_dict_update [OF dist])
next
  show "merge [(''DISCORD_CLIENT_ID'', Some ''abc''), (''DISCORD_TOKEN'', Some ''xyz''),
            (''REDDIT_BOT_CLIENT_ID'', Some ''r1''), (''REDDIT_BOT_SECRET'', Some ''s1'')]
        (YMap [(''commands'', YMap [(''prefix'', YStr ''!'')]),
               (''discord'', YMap [(''unused'', YBool True)])])
     = Inr [(''commands'', YMap [(''prefix'', YStr ''!'')]),
            (''discord'', YMap [(''client_id'', YStr ''abc''), (''token'', YStr ''xyz'')]),
            (''reddit'', YMap [(''client_id'', YStr ''r1''), (''secret'', YStr ''s1'')])]"
    by (simp add: merge_def load_env_def bind_result_def getitem_def of_env_def)
qed

theorem merge_shallow_top_level_witness:
  "load_env [(''REDDIT_BOT_SECRET'', Some ''s''), (''DISCORD_TOKEN'', None),
             (''DISCORD_CLIENT_ID'', Some ''7''), (''REDDIT_BOT_CLIENT_ID'', Some ''r'')]
     = Inr [(''discord'', YMap [(''client_id'', YStr ''7''), (''token'', YNull)]),
            (''reddit'', YMap [(''client_id'', YStr ''r''), (''secret'', YStr ''s'')])]
   \<and> merge [(''REDDIT_BOT_SECRET'', Some ''s''), (''DISCORD_TOKEN'', None),
            (''DISCORD_CLIENT_ID'', Some ''7''), (''REDDIT_BOT_CLIENT_ID'', Some ''r'')]
        (YMap [(''reddit'', YStr ''old''), (''channels'', YMap [(''meta'', YStr ''meta'')])])
     = Inr [(''reddit'', YMap [(''client_id'', YStr ''r''), (''secret'', YStr ''s'')]),
            (''channels'', YMap [(''meta'', YStr ''meta'')]),
            (''discord'', YMap [(''client_id'', YStr ''7''), (''token'', YNull)])]
   \<and> map_of [(''reddit'', YMap [(''client_id'', YStr ''r''), (''secret'', YStr ''s'')]),
             (''channels'', YMap [(''meta'', YStr ''meta'')]),
             (''discord'', YMap [(''client_id'', YStr ''7''), (''token'', YNull)])] ''reddit''
     = Some (YMap [(''client_id'', YStr ''r''), (''secret'', YStr ''s'')])
   \<and> map_of [(''reddit'', YMap [(''client_id'', YStr ''r''), (''secret'', YStr ''s'')]),
             (''channels'', YMap [(''meta'', YStr ''meta'')]),
             (''discord'', YMap [(''client_id'', YStr ''7''), (''token'', YNull)])] ''channels''
     = map_of [(''reddit'', YStr ''old''), (''channels'', YMap [(''meta'', YStr ''meta'')])]
         ''channels''"
proof -
  let ?env = "[(''REDDIT_BOT_SECRET'', Some ''s''), (''DISCORD_TOKEN'', None),
               (''DISCORD_CLIENT_ID'', Some ''7''), (''REDDIT_BOT_CLIENT_ID'', Some ''r'')] :: env"
  let ?ov = "[(''discord'', YMap [(''client_id'', YStr ''7''), (''token'', YNull)]),
              (''reddit'', YMap [(''client_id'', YStr ''r''), (''secret'', YStr ''s'')])]"
  let ?d = "[(''reddit'', YStr ''old''), (''channels'', YMap [(''meta'', YStr ''meta'')])]"
  let ?cfg = "[(''reddit'', YMap [(''client_id'', YStr ''r''), (''secret'', YStr ''s'')]),
               (''channels'', YMap [(''meta'', YStr ''meta'')]),
               (''discord'', YMap [(''client_id'', YStr ''7''), (''token'', YNull)])]"
  have h: "load_env ?env = Inr ?ov \<and> merge ?env (YMap ?d) = Inr ?cfg"
    by (simp add: merge_def load_env_def bind_result_def getitem_def of_env_def)
  from h have h1: "load_env ?env = Inr ?ov" and h2: "merge ?env (YMap ?d) = Inr ?cfg"
    by (rule conjunct1, rule conjunct2)
  note g = merge_shallow_top_level [THEN conjunct1, THEN mp, OF h]
  have r: "map_of ?cfg ''reddit'' = Some (YMap [(''client_id'', YStr ''r''), (''secret'', YStr ''s'')])"
    by (rule g [THEN conjunct1, rule_format]) simp
  have c: "map_of ?cfg ''channels'' = map_of ?d ''channels''"
    by (rule g [THEN conjunct2, rule_format]) simp
  show ?thesis by (intro conjI h1 h2 r c)
qed

text \<open>
  C8: merging the same secrets into the result of a merge succeeds and gives the same
  \<^verbatim>\<open>discord\<close> and \<^verbatim>\<open>reddit\<close> subtrees; it gives the same configuration altogether.
\<close>

theorem merge_idempotent:
  assumes "merge env data = Inr cfg"
  shows "\<exists>cfg'. merge env (YMap cfg) = Inr cfg'
           \<and> getitem cfg' ''discord'' = getitem cfg ''discord''
           \<and> getitem cfg' ''reddit'' = getitem cfg ''reddit''
           \<and> cfg' = cfg"
proof -
  from assms obtain d override where
    ov: "load_env env = Inr override" and cfg: "cfg = dict_update d override"
    by (rule merge_Inr)
  from ov obtain x y where override: "override = [(''discord'', x), (''reddit'', y)]"
    by (rule load_env_Inr)
  have cfg': "cfg = setitem (setitem d ''discord'' x) ''reddit'' y"
    by (simp add: cfg override)
  have "map_of cfg ''discord'' = Some x" and "map_of cfg ''reddit'' = Some y"
    by (simp_all add: cfg' map_of_setitem)
  then have "setitem (setitem cfg ''discord'' x) ''reddit'' y = cfg"
    by (simp add: setitem_same)
  then have "merge env (YMap cfg) = Inr cfg"
    by (simp add: merge_def bind_result_def ov override)
  then show ?thesis by simp
qed

theorem merge_idempotent_witness:
  "merge [(''DISCORD_CLIENT_ID'', Some ''abc''), (''DISCORD_TOKEN'', Some ''xyz''),
          (''REDDIT_BOT_CLIENT_ID'', Some ''r1''), (''REDDIT_BOT_SECRET'', Some ''s1'')]
      (YMap [(''discord'', YMap [(''unused'', YBool True)]), (''commands'', YInt 3)])
     = Inr [(''discord'', YMap [(''client_id'', YStr ''abc''), (''token'', YStr ''xyz'')]),
            (''commands'', YInt 3),
            (''reddit'', YMap [(''client_id'', YStr ''r1''), (''secret'', YStr ''s1'')])]
   \<and> merge [(''DISCORD_CLIENT_ID'', Some ''abc''), (''DISCORD_TOKEN'', Some ''xyz''),
            (''REDDIT_BOT_CLIENT_ID'', Some ''r1''), (''REDDIT_BOT_SECRET'', Some ''s1'')]
        (YMap [(''discord'', YMap [(''client_id'', YStr ''abc''), (''token'', YStr ''xyz'')]),
               (''commands'', YInt 3),
               (''reddit'', YMap [(''client_id'', YStr ''r1''), (''secret'', YStr ''s1'')])])
     = Inr [(''discord'', YMap [(''client_id'', YStr ''abc''), (''token'', YStr ''xyz'')]),
            (''commands'', YInt 3),
            (''reddit'', YMap [(''client_id'', YStr ''r1''), (''secret'', YStr ''s1'')])]"
proof -
  let ?env = "[(''DISCORD_CLIENT_ID'', Some ''abc''), (''DISCORD_TOKEN'', Some ''xyz''),
               (''REDDIT_BOT_CLIENT_ID'', Some ''r1''), (''REDDIT_BOT_SECRET'', Some ''s1'')] :: env"
  let ?data = "YMap [(''discord'', YMap [(''unused'', YBool True)]), (''commands'', YInt 3)]"
  let ?cfg = "[(''discord'', YMap [(''client_id'', YStr ''abc''), (''token'', YStr ''xyz'')]),
               (''commands'', YInt 3),
               (''reddit'', YMap [(''client_id'', YStr ''r1''), (''secret'', YStr ''s1'')])]"
  have h: "merge ?env ?data = Inr ?cfg"
    by (simp add: merge_def load_env_def bind_result_def getitem_def of_env_def)
  from merge_idempotent [OF h] h show ?thesis by simp
qed

text \<open>
  C9: the override mapping has exactly the two keys \<^verbatim>\<open>discord\<close> and \<^verbatim>\<open>reddit\<close>.
  Whenever the merge of a parsed mapping succeeds, every other top-level key maps to
  what it mapped to in the parsed document, and both \<^verbatim>\<open>discord\<close> and \<^verbatim>\<open>reddit\<close> are
  keys of the result.
\<close>

theorem merge_frame:
  assumes "merge env (YMap d) = Inr cfg"
  shows "(\<exists>override. load_env env = Inr override \<and> map fst override = [''discord'', ''reddit''])
         \<and> (\<forall>k. k \<noteq> ''discord'' \<and> k \<noteq> ''reddit'' \<longrightarrow> map_of cfg k = map_of d k)
         \<and> ''discord'' \<in> keys cfg \<and> ''reddit'' \<in> keys cfg"
proof -
  from assms obtain d' override where
    d': "YMap d = YMap d'" and ov: "load_env env = Inr override"
    and cfg: "cfg = dict_update d' override"
    by (rule merge_Inr)
  from ov obtain x y where override: "override = [(''discord'', x), (''reddit'', y)]"
    by (rule load_env_Inr)
  from d' have dd: "d' = d" by simp
  have cfg': "cfg = setitem (setitem d ''discord'' x) ''reddit'' y"
    by (simp add: cfg override dd)
  have a: "\<exists>override. load_env env = Inr override \<and> map fst override = [''discord'', ''reddit'']"
    by (simp add: ov override)
  have b: "\<forall>k. k \<noteq> ''discord'' \<and> k \<noteq> ''reddit'' \<longrightarrow> map_of cfg k = map_of d k"
    by (simp add: cfg' map_of_setitem)
  have c1: "''discord'' \<in> keys cfg" and c2: "''reddit'' \<in> keys cfg"
    by (simp_all add: cfg' keys_setitem)
  show ?thesis by (intro conjI a b c1 c2)
qed

theorem merge_frame_witness:
  "merge [(''DISCORD_CLIENT_ID'', Some ''1''), (''DISCORD_TOKEN'', Some ''t''),
          (''REDDIT_BOT_CLIENT_ID'', Some ''2''), (''REDDIT_BOT_SECRET'', Some ''u'')]
      (YMap [(''channels'', YMap [(''meta'', YStr ''meta''), (''bot'', YStr ''bots'')])])
     = Inr [(''channels'', YMap [(''meta'', YStr ''meta''), (''bot'', YStr ''bots'')]),
            (''discord'', YMap [(''client_id'', YStr ''1''), (''token'', YStr ''t'')]),
            (''reddit'', YMap [(''client_id'', YStr ''2''), (''secret'', YStr ''u'')])]
   \<and> ''discord'' \<in> keys
        [(''channels'', YMap [(''meta'', YStr ''meta''), (''bot'', YStr ''bots'')]),
         (''discord'', YMap [(''client_id'', YStr ''1''), (''token'', YStr ''t'')]),
         (''reddit'', YMap [(''client_id'', YStr ''2''), (''secret'', YStr ''u'')])]
   \<and> ''reddit'' \<in> keys
        [(''channels'', YMap [(''meta'', YStr ''meta''), (''bot'', YStr ''bots'')]),
         (''discord'', YMap [(''client_id'', YStr ''1''), (''token'', YStr ''t'')]),
         (''reddit'', YMap [(''client_id'', YStr ''2''), (''secret'', YStr ''u'')])]"
proof -
  let ?env = "[(''DISCORD_CLIENT_ID'', Some ''1''), (''DISCORD_TOKEN'', Some ''t''),
               (''REDDIT_BOT_CLIENT_ID'', Some ''2''), (''REDDIT_BOT_SECRET'', Some ''u'')] :: env"
  let ?d = "[(''channels'', YMap [(''meta'', YStr ''meta''), (''bot'', YStr ''bots'')])]"
  let ?cfg = "[(''channels'', YMap [(''meta'', YStr ''meta''), (''bot'', YStr ''bots'')]),
               (''discord'', YMap [(''client_id'', YStr ''1''), (''token'', YStr ''t'')]),
               (''reddit'', YMap [(''client_id'', YStr ''2''), (''secret'', YStr ''u'')])]"
  have h: "merge ?env (YMap ?d) = Inr ?cfg"
    by (simp add: merge_def load_env_def bind_result_def getitem_def of_env_def)
  note g = merge_frame [OF h]
  show ?thesis
    by (intro conjI h g [THEN conjunct2, THEN conjunct2, THEN conjunct1]
          g [THEN conjunct2, THEN conjunct2, THEN conjunct2])
qed

section \<open>Properties of Bot.create\<close>

text \<open>
  A secret file with the four storage keys and no gateway key passes \<^verbatim>\<open>Env()\<close>; the
  configuration is fetched, and the missing key surfaces only then, as the
  \<^verbatim>\<open>KeyError\<close> of the first lookup in \<^verbatim>\<open>load_env\<close>. No bot is constructed and no
  heartbeat task is created.
\<close>

lemma Bot_create_missing_gateway_key:
  "Bot_create
     [(''S3_REGION'', Some ''us-east-1''), (''S3_BUCKET'', Some ''ehfbot''),
      (''AWS_KEY'', Some ''AKIA''), (''AWS_SECRET'', Some ''hunter2'')]
     (\<lambda>region key secret. Inr (\<lambda>bucket. Inr (\<lambda>path. Inr ''commands: {prefix: !}'')))
     (\<lambda>bytes. Inr (YMap [(''commands'', YMap [(''prefix'', YStr ''!'')])]))
     ''/tmp/tmpk3x9ab'' Map.empty []
   = (Inl (KeyError ''DISCORD_CLIENT_ID''), Map.empty)"
  by (simp add: Bot_create_def Env_init_cases REQUIRED_KEYS_def keys_def Storage_init_def
      bind_result_def getitem_def Config_init_def load_config_def Storage_get_def
      splitext_config_app_yml merge_def load_env_def)

section \<open>Properties of the channel guards\<close>

lemma check_meta_channel_named:
  "channel ctx = TextChannel name \<Longrightarrow> config_path cfg ''channels'' ''meta'' = Inr meta \<Longrightarrow>
     check_meta_channel cfg ctx = Inr (meta = YStr name)"
  by (auto simp: check_meta_channel_def bind_result_def)

lemma check_bot_channel_named:
  "channel ctx = TextChannel name \<Longrightarrow> config_path cfg ''channels'' ''bot'' = Inr b \<Longrightarrow>
     check_bot_channel cfg ctx = Inr (b = YStr name)"
  by (auto simp: check_bot_channel_def bind_result_def)

lemma check_meta_channel_DM:
  "channel ctx = DMChannel \<Longrightarrow> check_meta_channel cfg ctx = Inl AttributeError"
  by (simp add: check_meta_channel_def bind_result_def)

lemma check_bot_channel_DM:
  "channel ctx = DMChannel \<Longrightarrow> check_bot_channel cfg ctx = Inl AttributeError"
  by (simp add: check_bot_channel_def bind_result_def)

text \<open>A check that returns has read a channel name and a configured value.\<close>

lemma check_meta_channel_Inr:
  assumes "check_meta_channel cfg ctx = Inr r"
  obtains name meta where "channel ctx = TextChannel name"
    "config_path cfg ''channels'' ''meta'' = Inr meta" "r = (YStr name = meta)"
  using assms
  by (cases "channel ctx")
     (auto simp: check_meta_channel_def bind_result_def split: sum.splits)

lemma check_bot_channel_Inr:
  assumes "check_bot_channel cfg ctx = Inr r"
  obtains name b where "channel ctx = TextChannel name"
    "config_path cfg ''channels'' ''bot'' = Inr b" "r = (YStr name = b)"
  using assms
  by (cases "channel ctx")
     (auto simp: check_bot_channel_def bind_result_def split: sum.splits)

text \<open>
  C6: in every context and with every configuration, \<^verbatim>\<open>check_meta_channel\<close> returns true
  exactly when the invoking channel has a name and \<^verbatim>\<open>channels.meta\<close> is configured as
  that same string; \<^verbatim>\<open>check_bot_channel\<close> likewise with \<^verbatim>\<open>channels.bot\<close>. In a named
  channel with the value configured the check returns, true or false by that
  comparison. In a direct-message channel, which has no name, both raise
  \<^verbatim>\<open>AttributeError\<close> and so never return true. Both are functions of the configuration
  and the context alone: they take no state and give none back.
\<close>

theorem check_channel_iff:
  "(check_meta_channel cfg ctx = Inr True \<longleftrightarrow>
      (\<exists>name. channel ctx = TextChannel name
         \<and> config_path cfg ''channels'' ''meta'' = Inr (YStr name)))
   \<and> (check_bot_channel cfg ctx = Inr True \<longleftrightarrow>
      (\<exists>name. channel ctx = TextChannel name
         \<and> config_path cfg ''channels'' ''bot'' = Inr (YStr name)))
   \<and> (channel ctx = TextChannel name \<and> config_path cfg ''channels'' ''meta'' = Inr meta \<longrightarrow>
        (\<exists>r. check_meta_channel cfg ctx = Inr r \<and> (r \<longleftrightarrow> meta = YStr name)))
   \<and> (channel ctx = TextChannel name \<and> config_path cfg ''channels'' ''bot'' = Inr b \<longrightarrow>
        (\<exists>r. check_bot_channel cfg ctx = Inr r \<and> (r \<longleftrightarrow> b = YStr name)))
   \<and> (channel ctx = DMChannel \<longrightarrow>
        check_meta_channel cfg ctx = Inl AttributeError
        \<and> check_bot_channel cfg ctx = Inl AttributeError)"
proof (intro conjI impI iffI)
  assume "check_meta_channel cfg ctx = Inr True"
  then obtain n m where "channel ctx = TextChannel n"
    "config_path cfg ''channels'' ''meta'' = Inr m" "True = (YStr n = m)"
    by (rule check_meta_channel_Inr)
  then show "\<exists>name. channel ctx = TextChannel name
      \<and> config_path cfg ''channels'' ''meta'' = Inr (YStr name)"
    by auto
next
  assume "\<exists>name. channel ctx = TextChannel name
      \<and> config_path cfg ''channels'' ''meta'' = Inr (YStr name)"
  then show "check_meta_channel cfg ctx = Inr True"
    by (auto simp: check_meta_channel_named)
next
  assume "check_bot_channel cfg ctx = Inr True"
  then obtain n m where "channel ctx = TextChannel n"
    "config_path cfg ''channels'' ''bot'' = Inr m" "True = (YStr n = m)"
    by (rule check_bot_channel_Inr)
  then show "\<exists>name. channel ctx = TextChannel name
      \<and> config_path cfg ''channels'' ''bot'' = Inr (YStr name)"
    by auto
next
  assume "\<exists>name. channel ctx = TextChannel name
      \<and> config_path cfg ''channels'' ''bot'' = Inr (YStr name)"
  then show "check_bot_channel cfg ctx = Inr True"
    by (auto simp: check_bot_channel_named)
next
  assume "channel ctx = TextChannel name \<and> config_path cfg ''channels'' ''meta'' = Inr meta"
  then show "\<exists>r. check_meta_channel cfg ctx = Inr r \<and> (r \<longleftrightarrow> meta = YStr name)"
    by (simp add: check_meta_channel_named)
next
  assume "channel ctx = TextChannel name \<and> config_path cfg ''channels'' ''bot'' = Inr b"
  then show "\<exists>r. check_bot_channel cfg ctx = Inr r \<and> (r \<longleftrightarrow> b = YStr name)"
    by (simp add: check_bot_channel_named)
next
  assume "channel ctx = DMChannel"
  then show "check_meta_channel cfg ctx = Inl AttributeError"
    by (rule check_meta_channel_DM)
next
  assume "channel ctx = DMChannel"
  then show "check_bot_channel cfg ctx = Inl AttributeError"
    by (rule check_bot_channel_DM)
qed

theorem check_channel_iff_witness:
  "channel \<lparr>channel = TextChannel ''meta''\<rparr> = TextChannel ''meta''
   \<and> config_path [(''channels'', YMap [(''meta'', YStr ''meta''), (''bot'', YStr ''bots'')])]
       ''channels'' ''meta'' = Inr (YStr ''meta'')
   \<and> config_path [(''channels'', YMap [(''meta'', YStr ''meta''), (''bot'', YStr ''bots'')])]
       ''channels'' ''bot'' = Inr (YStr ''bots'')
   \<and> check_meta_channel
        [(''channels'', YMap [(''meta'', YStr ''meta''), (''bot'', YStr ''bots'')])]
        \<lparr>channel = TextChannel ''meta''\<rparr> = Inr True
   \<and> check_bot_channel
        [(''channels'', YMap [(''meta'', YStr ''meta''), (''bot'', YStr ''bots'')])]
        \<lparr>channel = TextChannel ''meta''\<rparr> = Inr False
   \<and> channel \<lparr>channel = DMChannel\<rparr> = DMChannel
   \<and> check_meta_channel
        [(''channels'', YMap [(''meta'', YStr ''meta''), (''bot'', YStr ''bots'')])]
        \<lparr>channel = DMChannel\<rparr> = Inl AttributeError
   \<and> check_bot_channel
        [(''channels'', YMap [(''meta'', YStr ''meta''), (''bot'', YStr ''bots'')])]
        \<lparr>channel = DMChannel\<rparr> = Inl AttributeError"
proof -
  let ?cfg = "[(''channels'', YMap [(''meta'', YStr ''meta''), (''bot'', YStr ''bots'')])]"
  let ?ctx = "\<lparr>channel = TextChannel ''meta''\<rparr>"
  let ?dm = "\<lparr>channel = DMChannel\<rparr>"
  have n: "channel ?ctx = TextChannel ''meta''" and d: "channel ?dm = DMChannel"
    by simp_all
  have m: "config_path ?cfg ''channels'' ''meta'' = Inr (YStr ''meta'')"
    by (simp add: config_path_def bind_result_def getitem_def)
  have b: "config_path ?cfg ''channels'' ''bot'' = Inr (YStr ''bots'')"
    by (simp add: config_path_def bind_result_def getitem_def)
  note rest = check_channel_iff [THEN conjunct2, THEN conjunct2]
  from rest [THEN conjunct1, THEN mp, OF conjI [OF n m]]
  have cm: "check_meta_channel ?cfg ?ctx = Inr True" by auto
  from rest [THEN conjunct2, THEN conjunct1, THEN mp, OF conjI [OF n b]]
  have cb: "check_bot_channel ?cfg ?ctx = Inr False" by auto
  note dms = rest [THEN conjunct2, THEN conjunct2, THEN mp, OF d]
  have dm1: "check_meta_channel ?cfg ?dm = Inl AttributeError"
    by (rule dms [THEN conjunct1])
  have dm2: "check_bot_channel ?cfg ?dm = Inl AttributeError"
    by (rule dms [THEN conjunct2])
  show ?thesis by (intro conjI n m b cm cb d dm1 dm2)
qed

text \<open>
  C7: \<^verbatim>\<open>warn_meta_channel\<close> follows its check in every context. When the check returns
  true it sends nothing and returns true. When the check returns false it sends exactly
  one message to the invoking channel, the redirect that names the configured meta
  channel, and returns false. When the check raises, as it does in a direct-message
  channel or with \<^verbatim>\<open>channels.meta\<close> not configured, the guard raises the same exception
  and sends nothing. \<^verbatim>\<open>warn_bot_channel\<close> does the same with \<^verbatim>\<open>check_bot_channel\<close> and
  \<^verbatim>\<open>channels.bot\<close>.
\<close>

theorem warn_channel:
  "(check_meta_channel cfg ctx = Inr True \<longrightarrow>
      warn_meta_channel py_str cfg ctx sent = (Inr True, sent))
   \<and> (check_meta_channel cfg ctx = Inr False \<longrightarrow>
      (\<exists>meta. config_path cfg ''channels'' ''meta'' = Inr meta
         \<and> warn_meta_channel py_str cfg ctx sent =
             (Inr False,
              sent @ [(channel ctx, ''take it to #'' @ format_value py_str meta)])))
   \<and> (check_meta_channel cfg ctx = Inl e \<longrightarrow>
      warn_meta_channel py_str cfg ctx sent = (Inl e, sent))
   \<and> (check_bot_channel cfg ctx = Inr True \<longrightarrow>
      warn_bot_channel py_str cfg ctx sent = (Inr True, sent))
   \<and> (check_bot_channel cfg ctx = Inr False \<longrightarrow>
      (\<exists>b. config_path cfg ''channels'' ''bot'' = Inr b
         \<and> warn_bot_channel py_str cfg ctx sent =
             (Inr False,
              sent @ [(channel ctx, ''take it to #'' @ format_value py_str b)])))
   \<and> (check_bot_channel cfg ctx = Inl e' \<longrightarrow>
      warn_bot_channel py_str cfg ctx sent = (Inl e', sent))
   \<and> (channel ctx = DMChannel \<longrightarrow>
      warn_meta_channel py_str cfg ctx sent = (Inl AttributeError, sent)
      \<and> warn_bot_channel py_str cfg ctx sent = (Inl AttributeError, sent))"
proof (intro conjI impI)
  assume "check_meta_channel cfg ctx = Inr True"
  then show "warn_meta_channel py_str cfg ctx sent = (Inr True, sent)"
    by (simp add: warn_meta_channel_def)
next
  assume c: "check_meta_channel cfg ctx = Inr False"
  then obtain name meta where m: "config_path cfg ''channels'' ''meta'' = Inr meta"
    by (rule check_meta_channel_Inr)
  from c m have "warn_meta_channel py_str cfg ctx sent =
      (Inr False, sent @ [(channel ctx, ''take it to #'' @ format_value py_str meta)])"
    by (simp add: warn_meta_channel_def)
  with m show "\<exists>meta. config_path cfg ''channels'' ''meta'' = Inr meta
      \<and> warn_meta_channel py_str cfg ctx sent =
          (Inr False, sent @ [(channel ctx, ''take it to #'' @ format_value py_str meta)])"
    by (intro exI [of _ meta] conjI)
next
  assume "check_meta_channel cfg ctx = Inl e"
  then show "warn_meta_channel py_str cfg ctx sent = (Inl e, sent)"
    by (simp add: warn_meta_channel_def)
next
  assume "check_bot_channel cfg ctx = Inr True"
  then show "warn_bot_channel py_str cfg ctx sent = (Inr True, sent)"
    by (simp add: warn_bot_channel_def)
next
  assume c: "check_bot_channel cfg ctx = Inr False"
  then obtain name b where m: "config_path cfg ''channels'' ''bot'' = Inr b"
    by (rule check_bot_channel_Inr)
  from c m have "warn_bot_channel py_str cfg ctx sent =
      (Inr False, sent @ [(channel ctx, ''take it to #'' @ format_value py_str b)])"
    by (simp add: warn_bot_channel_def)
  with m show "\<exists>b. config_path cfg ''channels'' ''bot'' = Inr b
      \<and> warn_bot_channel py_str cfg ctx sent =
          (Inr False, sent @ [(channel ctx, ''take it to #'' @ format_value py_str b)])"
    by (intro exI [of _ b] conjI)
next
  assume "check_bot_channel cfg ctx = Inl e'"
  then show "warn_bot_channel py_str cfg ctx sent = (Inl e', sent)"
    by (simp add: warn_bot_channel_def)
next
  assume "channel ctx = DMChannel"
  then show "warn_meta_channel py_str cfg ctx sent = (Inl AttributeError, sent)"
    by (simp add: warn_meta_channel_def check_meta_channel_DM)
next
  assume "channel ctx = DMChannel"
  then show "warn_bot_channel py_str cfg ctx sent = (Inl AttributeError, sent)"
    by (simp add: warn_bot_channel_def check_bot_channel_DM)
qed

theorem warn_channel_witness:
  "check_meta_channel
       [(''channels'', YMap [(''meta'', YStr ''meta''), (''bot'', YStr ''bots'')])]
       \<lparr>channel = TextChannel ''meta''\<rparr> = Inr True
   \<and> warn_meta_channel (\<lambda>v. [])
        [(''channels'', YMap [(''meta'', YStr ''meta''), (''bot'', YStr ''bots'')])]
        \<lparr>channel = TextChannel ''meta''\<rparr> [] = (Inr True, [])
   \<and> check_bot_channel
        [(''channels'', YMap [(''meta'', YStr ''meta''), (''bot'', YStr ''bots'')])]
        \<lparr>channel = TextChannel ''meta''\<rparr> = Inr False
   \<and> warn_bot_channel (\<lambda>v. [])
        [(''channels'', YMap [(''meta'', YStr ''meta''), (''bot'', YStr ''bots'')])]
        \<lparr>channel = TextChannel ''meta''\<rparr> []
       = (Inr False, [(TextChannel ''meta'', ''take it to #bots'')])
   \<and> check_bot_channel
        [(''channels'', YMap [(''meta'', YStr ''meta''), (''bot'', YStr ''bots'')])]
        \<lparr>channel = TextChannel ''bots''\<rparr> = Inr True
   \<and> warn_bot_channel (\<lambda>v. [])
        [(''channels'', YMap [(''meta'', YStr ''meta''), (''bot'', YStr ''bots'')])]
        \<lparr>channel = TextChannel ''bots''\<rparr> [] = (Inr True, [])
   \<and> check_meta_channel
        [(''channels'', YMap [(''meta'', YStr ''meta''), (''bot'', YStr ''bots'')])]
        \<lparr>channel = TextChannel ''bots''\<rparr> = Inr False
   \<and> warn_meta_channel (\<lambda>v. [])
        [(''channels'', YMap [(''meta'', YStr ''meta''), (''bot'', YStr ''bots'')])]
        \<lparr>channel = TextChannel ''bots''\<rparr> []
       = (Inr False, [(TextChannel ''bots'', ''take it to #meta'')])
   \<and> check_meta_channel [] \<lparr>channel = TextChannel ''meta''\<rparr> = Inl (KeyError ''channels'')
   \<and> warn_meta_channel (\<lambda>v. []) [] \<lparr>channel = TextChannel ''meta''\<rparr> []
       = (Inl (KeyError ''channels''), [])
   \<and> check_bot_channel [] \<lparr>channel = TextChannel ''meta''\<rparr> = Inl (KeyError ''channels'')
   \<and> warn_bot_channel (\<lambda>v. []) [] \<lparr>channel = TextChannel ''meta''\<rparr> []
       = (Inl (KeyError ''channels''), [])
   \<and> channel \<lparr>channel = DMChannel\<rparr> = DMChannel
   \<and> warn_meta_channel (\<lambda>v. [])
        [(''channels'', YMap [(''meta'', YStr ''meta''), (''bot'', YStr ''bots'')])]
        \<lparr>channel = DMChannel\<rparr> [] = (Inl AttributeError, [])
   \<and> warn_bot_channel (\<lambda>v. [])
        [(''channels'', YMap [(''meta'', YStr ''meta''), (''bot'', YStr ''bots'')])]
        \<lparr>channel = DMChannel\<rparr> [] = (Inl AttributeError, [])"
proof -
  let ?cfg = "[(''channels'', YMap [(''meta'', YStr ''meta''), (''bot'', YStr ''bots'')])]"
  let ?m = "\<lparr>channel = TextChannel ''meta''\<rparr>"
  let ?b = "\<lparr>channel = TextChannel ''bots''\<rparr>"
  let ?dm = "\<lparr>channel = DMChannel\<rparr>"
  let ?str = "\<lambda>v::yaml. [] :: string"
  have pm: "config_path ?cfg ''channels'' ''meta'' = Inr (YStr ''meta'')"
    by (simp add: config_path_def bind_result_def getitem_def)
  have pb: "config_path ?cfg ''channels'' ''bot'' = Inr (YStr ''bots'')"
    by (simp add: config_path_def bind_result_def getitem_def)
  have pn: "config_path [] ''channels'' ''meta'' = Inl (KeyError ''channels'')"
    "config_path [] ''channels'' ''bot'' = Inl (KeyError ''channels'')"
    by (simp_all add: config_path_def bind_result_def getitem_def)
  have mm: "check_meta_channel ?cfg ?m = Inr True"
    by (simp add: check_meta_channel_def bind_result_def pm)
  have bm: "check_bot_channel ?cfg ?m = Inr False"
    by (simp add: check_bot_channel_def bind_result_def pb)
  have bb: "check_bot_channel ?cfg ?b = Inr True"
    by (simp add: check_bot_channel_def bind_result_def pb)
  have mb: "check_meta_channel ?cfg ?b = Inr False"
    by (simp add: check_meta_channel_def bind_result_def pm)
  have me: "check_meta_channel [] ?m = Inl (KeyError ''channels'')"
    by (simp add: check_meta_channel_def bind_result_def pn)
  have be: "check_bot_channel [] ?m = Inl (KeyError ''channels'')"
    by (simp add: check_bot_channel_def bind_result_def pn)
  have d: "channel ?dm = DMChannel" by simp
  note m1 = warn_channel [THEN conjunct1]
  note r1 = warn_channel [THEN conjunct2]
  note m2 = r1 [THEN conjunct1]
  note r2 = r1 [THEN conjunct2]
  note m3 = r2 [THEN conjunct1]
  note r3 = r2 [THEN conjunct2]
  note b1 = r3 [THEN conjunct1]
  note r4 = r3 [THEN conjunct2]
  note b2 = r4 [THEN conjunct1]
  note r5 = r4 [THEN conjunct2]
  note b3 = r5 [THEN conjunct1]
  note dm = r5 [THEN conjunct2]
  have w1: "warn_meta_channel ?str ?cfg ?m [] = (Inr True, [])"
    by (rule m1 [THEN mp, OF mm])
  from b2 [THEN mp, OF bm, of ?str "[]"] pb
  have w2: "warn_bot_channel ?str ?cfg ?m [] =
      (Inr False, [(TextChannel ''meta'', ''take it to #bots'')])"
    by auto
  have w3: "warn_bot_channel ?str ?cfg ?b [] = (Inr True, [])"
    by (rule b1 [THEN mp, OF bb])
  from m2 [THEN mp, OF mb, of ?str "[]"] pm
  have w4: "warn_meta_channel ?str ?cfg ?b [] =
      (Inr False, [(TextChannel ''bots'', ''take it to #meta'')])"
    by auto
  have w5: "warn_meta_channel ?str [] ?m [] = (Inl (KeyError ''channels''), [])"
    by (rule m3 [THEN mp, OF me])
  have w6: "warn_bot_channel ?str [] ?m [] = (Inl (KeyError ''channels''), [])"
    by (rule b3 [THEN mp, OF be])
  note wd = dm [THEN mp, OF d]
  have w7: "warn_meta_channel ?str ?cfg ?dm [] = (Inl AttributeError, [])"
    by (rule wd [THEN conjunct1])
  have w8: "warn_bot_channel ?str ?cfg ?dm [] = (Inl AttributeError, [])"
    by (rule wd [THEN conjunct2])
  show ?thesis by (intro conjI mm w1 bm w2 bb w3 mb w4 me w5 be w6 d w7 w8)
qed

section \<open>Properties of the heartbeat loop\<close>

lemma heartbeat_while_open:
  "(\<And>j. j < fuel \<Longrightarrow> \<not> closed (i + j)) \<Longrightarrow>
     heartbeat_while fuel closed i =
       (concat (replicate fuel [Dispatch ''heartbeat'', Sleep 10]), Suspended)"
proof (induction fuel arbitrary: i)
  case 0
  show ?case by simp
next
  case (Suc fuel)
  have "\<not> closed i" using Suc.prems [of 0] by simp
  moreover have "heartbeat_while fuel closed (Suc i) =
      (concat (replicate fuel [Dispatch ''heartbeat'', Sleep 10]), Suspended)"
  proof (rule Suc.IH)
    fix j assume "j < fuel"
    then show "\<not> closed (Suc i + j)" using Suc.prems [of "Suc j"] by simp
  qed
  ultimately show ?case by simp
qed

lemma heartbeat_while_closed:
  "(\<And>j. j < k \<Longrightarrow> \<not> closed (i + j)) \<Longrightarrow> closed (i + k) \<Longrightarrow> k < fuel \<Longrightarrow>
     heartbeat_while fuel closed i =
       (concat (replicate k [Dispatch ''heartbeat'', Sleep 10]), Returned)"
proof (induction k arbitrary: i fuel)
  case 0
  then obtain f where "fuel = Suc f" by (cases fuel) auto
  with 0 show ?case by simp
next
  case (Suc k)
  from Suc.prems(3) obtain f where f: "fuel = Suc f" "k < f" by (cases fuel) auto
  have "\<not> closed i" using Suc.prems(1) [of 0] by simp
  moreover have "heartbeat_while f closed (Suc i) =
      (concat (replicate k [Dispatch ''heartbeat'', Sleep 10]), Returned)"
  proof (rule Suc.IH)
    fix j assume "j < k"
    then show "\<not> closed (Suc i + j)" using Suc.prems(1) [of "Suc j"] by simp
  next
    show "closed (Suc i + k)" using Suc.prems(2) by simp
  next
    show "k < f" by (rule f(2))
  qed
  ultimately show ?case using f by simp
qed

text \<open>Every trace of the loop body is a number of whole iterations.\<close>

lemma heartbeat_while_shape:
  "\<exists>n st. heartbeat_while fuel closed i =
     (concat (replicate n [Dispatch ''heartbeat'', Sleep 10]), st) \<and> n \<le> fuel"
proof (induction fuel arbitrary: i)
  case 0
  show ?case by simp
next
  case (Suc fuel)
  show ?case
  proof (cases "closed i")
    case True
    then have "heartbeat_while (Suc fuel) closed i =
        (concat (replicate 0 [Dispatch ''heartbeat'', Sleep 10]), Returned)"
      by simp
    then show ?thesis by blast
  next
    case False
    from Suc.IH [of "Suc i"] obtain n st where
      n: "heartbeat_while fuel closed (Suc i) =
            (concat (replicate n [Dispatch ''heartbeat'', Sleep 10]), st)" "n \<le> fuel"
      by blast
    from False n have "heartbeat_while (Suc fuel) closed i =
        (concat (replicate (Suc n) [Dispatch ''heartbeat'', Sleep 10]), st)"
      by simp
    with n(2) show ?thesis by (intro exI [of _ "Suc n"] exI [of _ st]) simp
  qed
qed

lemma heartbeats_beats:
  "heartbeats (WaitUntilReady # concat (replicate n [Dispatch ''heartbeat'', Sleep 10])) = n"
  by (induction n) (simp_all add: heartbeats_def)

lemma Bot_init_Inr:
  assumes "Bot_init env st cfg tasks = Inr (b, tasks')"
  shows "tasks' = tasks @ [HeartbeatLoop]" and "heartbeat_task b = length tasks"
  using assms
  by (auto simp: Bot_init_def bind_result_def split: sum.splits)

text \<open>
  C5: constructing the bot adds exactly one heartbeat task to the event loop. The task
  first waits for the gateway to be ready; while it is not, nothing is emitted. Once
  ready, for as long as every test of the loop finds the connection open, each test is
  followed by a \<^verbatim>\<open>heartbeat\<close> event and then a sleep of 10 seconds: after \<open>fuel\<close> tests
  the trace holds exactly \<open>fuel\<close> heartbeats and the coroutine is still running, so a
  connection that is never closed gets a heartbeat at every test, without end. With \<open>k\<close>
  the first test at which the connection is reported closed, the coroutine has emitted
  one heartbeat and one sleep for each of the \<open>k\<close> tests before, and returns: however
  long it is run after that, the trace stays the same and holds exactly \<open>k\<close> heartbeat
  events.
\<close>

theorem heartbeat_loop_lifecycle:
  "(Bot_init env st cfg tasks = Inr (b, tasks') \<longrightarrow>
      tasks' = tasks @ [HeartbeatLoop] \<and> heartbeat_task b = length tasks
      \<and> length (filter (\<lambda>t. t = HeartbeatLoop) tasks')
          = Suc (length (filter (\<lambda>t. t = HeartbeatLoop) tasks)))
   \<and> (\<not> becomes_ready gw \<longrightarrow> heartbeat_loop fuel gw = ([WaitUntilReady], Suspended))
   \<and> (becomes_ready gw \<and> (\<forall>j. j < fuel \<longrightarrow> \<not> is_closed gw j) \<longrightarrow>
        heartbeat_loop fuel gw =
          (WaitUntilReady # concat (replicate fuel [Dispatch ''heartbeat'', Sleep 10]),
           Suspended)
        \<and> heartbeats (fst (heartbeat_loop fuel gw)) = fuel)
   \<and> (becomes_ready gw \<and> (\<forall>j. j < k \<longrightarrow> \<not> is_closed gw j) \<and> is_closed gw k \<longrightarrow>
        (fuel \<le> k \<longrightarrow>
           heartbeat_loop fuel gw =
             (WaitUntilReady # concat (replicate fuel [Dispatch ''heartbeat'', Sleep 10]),
              Suspended))
        \<and> (k < fuel \<longrightarrow>
           heartbeat_loop fuel gw =
             (WaitUntilReady # concat (replicate k [Dispatch ''heartbeat'', Sleep 10]),
              Returned)
           \<and> heartbeats (fst (heartbeat_loop fuel gw)) = k))"
proof (intro conjI impI)
  assume "Bot_init env st cfg tasks = Inr (b, tasks')"
  then have t: "tasks' = tasks @ [HeartbeatLoop]" and h: "heartbeat_task b = length tasks"
    by (rule Bot_init_Inr)+
  show "tasks' = tasks @ [HeartbeatLoop]" by (rule t)
  show "heartbeat_task b = length tasks" by (rule h)
  show "length (filter (\<lambda>t. t = HeartbeatLoop) tasks')
          = Suc (length (filter (\<lambda>t. t = HeartbeatLoop) tasks))"
    by (simp add: t)
next
  assume "\<not> becomes_ready gw"
  then show "heartbeat_loop fuel gw = ([WaitUntilReady], Suspended)"
    by (simp add: heartbeat_loop_def)
next
  assume a: "becomes_ready gw \<and> (\<forall>j. j < fuel \<longrightarrow> \<not> is_closed gw j)"
  have "heartbeat_while fuel (is_closed gw) 0 =
      (concat (replicate fuel [Dispatch ''heartbeat'', Sleep 10]), Suspended)"
  proof (rule heartbeat_while_open)
    fix j assume "j < fuel"
    with a show "\<not> is_closed gw (0 + j)" by simp
  qed
  with a show "heartbeat_loop fuel gw =
      (WaitUntilReady # concat (replicate fuel [Dispatch ''heartbeat'', Sleep 10]), Suspended)"
    by (simp add: heartbeat_loop_def)
next
  assume a: "becomes_ready gw \<and> (\<forall>j. j < fuel \<longrightarrow> \<not> is_closed gw j)"
  have "heartbeat_while fuel (is_closed gw) 0 =
      (concat (replicate fuel [Dispatch ''heartbeat'', Sleep 10]), Suspended)"
  proof (rule heartbeat_while_open)
    fix j assume "j < fuel"
    with a show "\<not> is_closed gw (0 + j)" by simp
  qed
  with a have r: "heartbeat_loop fuel gw =
      (WaitUntilReady # concat (replicate fuel [Dispatch ''heartbeat'', Sleep 10]), Suspended)"
    by (simp add: heartbeat_loop_def)
  show "heartbeats (fst (heartbeat_loop fuel gw)) = fuel"
    by (simp only: r fst_conv heartbeats_beats)
next
  assume a: "becomes_ready gw \<and> (\<forall>j. j < k \<longrightarrow> \<not> is_closed gw j) \<and> is_closed gw k"
    and f: "fuel \<le> k"
  have "heartbeat_while fuel (is_closed gw) 0 =
      (concat (replicate fuel [Dispatch ''heartbeat'', Sleep 10]), Suspended)"
  proof (rule heartbeat_while_open)
    fix j assume "j < fuel"
    with f have "j < k" by simp
    with a show "\<not> is_closed gw (0 + j)" by simp
  qed
  with a show "heartbeat_loop fuel gw =
      (WaitUntilReady # concat (replicate fuel [Dispatch ''heartbeat'', Sleep 10]), Suspended)"
    by (simp add: heartbeat_loop_def)
next
  assume a: "becomes_ready gw \<and> (\<forall>j. j < k \<longrightarrow> \<not> is_closed gw j) \<and> is_closed gw k"
    and f: "k < fuel"
  have "heartbeat_while fuel (is_closed gw) 0 =
      (concat (replicate k [Dispatch ''heartbeat'', Sleep 10]), Returned)"
  proof (rule heartbeat_while_closed)
    fix j assume "j < k"
    with a show "\<not> is_closed gw (0 + j)" by simp
  next
    from a show "is_closed gw (0 + k)" by simp
  next
    show "k < fuel" by (rule f)
  qed
  with a have r: "heartbeat_loop fuel gw =
      (WaitUntilReady # concat (replicate k [Dispatch ''heartbeat'', Sleep 10]), Returned)"
    by (simp add: heartbeat_loop_def)
  show "heartbeat_loop fuel gw =
      (WaitUntilReady # concat (replicate k [Dispatch ''heartbeat'', Sleep 10]), Returned)"
    by (rule r)
  show "heartbeats (fst (heartbeat_loop fuel gw)) = k"
    by (simp only: r fst_conv heartbeats_beats)
qed

theorem heartbeat_loop_lifecycle_witness:
  "Bot_init []
       \<lparr>region_name = None, aws_access_key_id = None, aws_secret_access_key = None,
        bucket_name = None, download_file = (\<lambda>key. Inl (DownloadError []))\<rparr>
       [(''commands'', YMap [(''prefix'', YStr ''!'')])] [] =
     Inr (\<lparr>bot_env = [],
           bot_storage =
             \<lparr>region_name = None, aws_access_key_id = None, aws_secret_access_key = None,
              bucket_name = None, download_file = (\<lambda>key. Inl (DownloadError []))\<rparr>,
           bot_config = [(''commands'', YMap [(''prefix'', YStr ''!'')])],
           command_prefix = YStr ''!'',
           cogs = [''PresenceCog'', ''WelcomeCog'', ''RolerCog'', ''AfterdarkCog'',
                   ''RealtalkCog'', ''ActivityCog'', ''LurkersCog'', ''AnimeCog'',
                   ''AnnoyingCog'', ''NoveltyCog''],
           new_members = [], heartbeat_task = 0\<rparr>,
          [HeartbeatLoop])
   \<and> \<not> becomes_ready \<lparr>becomes_ready = False, is_closed = (\<lambda>i. False)\<rparr>
   \<and> heartbeat_loop 4 \<lparr>becomes_ready = False, is_closed = (\<lambda>i. False)\<rparr>
       = ([WaitUntilReady], Suspended)
   \<and> becomes_ready \<lparr>becomes_ready = True, is_closed = (\<lambda>i. False)\<rparr>
   \<and> heartbeat_loop 3 \<lparr>becomes_ready = True, is_closed = (\<lambda>i. False)\<rparr>
       = ([WaitUntilReady, Dispatch ''heartbeat'', Sleep 10, Dispatch ''heartbeat'', Sleep 10,
           Dispatch ''heartbeat'', Sleep 10], Suspended)
   \<and> heartbeats (fst (heartbeat_loop 3 \<lparr>becomes_ready = True, is_closed = (\<lambda>i. False)\<rparr>))
       = 3
   \<and> becomes_ready \<lparr>becomes_ready = True, is_closed = (\<lambda>i. 2 \<le> i)\<rparr>
   \<and> \<not> is_closed \<lparr>becomes_ready = True, is_closed = (\<lambda>i. 2 \<le> i)\<rparr> 0
   \<and> \<not> is_closed \<lparr>becomes_ready = True, is_closed = (\<lambda>i. 2 \<le> i)\<rparr> 1
   \<and> is_closed \<lparr>becomes_ready = True, is_closed = (\<lambda>i. 2 \<le> i)\<rparr> 2
   \<and> heartbeat_loop 1 \<lparr>becomes_ready = True, is_closed = (\<lambda>i. 2 \<le> i)\<rparr>
       = ([WaitUntilReady, Dispatch ''heartbeat'', Sleep 10], Suspended)
   \<and> heartbeat_loop 7 \<lparr>becomes_ready = True, is_closed = (\<lambda>i. 2 \<le> i)\<rparr>
       = ([WaitUntilReady, Dispatch ''heartbeat'', Sleep 10, Dispatch ''heartbeat'', Sleep 10],
          Returned)
   \<and> heartbeats (fst (heartbeat_loop 7 \<lparr>becomes_ready = True, is_closed = (\<lambda>i. 2 \<le> i)\<rparr>))
       = 2"
proof -
  let ?st = "\<lparr>region_name = None, aws_access_key_id = None, aws_secret_access_key = None,
              bucket_name = None, download_file = (\<lambda>key. Inl (DownloadError []))\<rparr>"
  let ?cfg = "[(''commands'', YMap [(''prefix'', YStr ''!'')])]"
  let ?b = "\<lparr>bot_env = [], bot_storage = ?st, bot_config = ?cfg,
             command_prefix = YStr ''!'',
             cogs = [''PresenceCog'', ''WelcomeCog'', ''RolerCog'', ''AfterdarkCog'',
                     ''RealtalkCog'', ''ActivityCog'', ''LurkersCog'', ''AnimeCog'',
                     ''AnnoyingCog'', ''NoveltyCog''],
             new_members = [], heartbeat_task = 0\<rparr>"
  let ?never = "\<lparr>becomes_ready = False, is_closed = (\<lambda>i. False)\<rparr>"
  let ?open = "\<lparr>becomes_ready = True, is_closed = (\<lambda>i::nat. False)\<rparr>"
  let ?gw = "\<lparr>becomes_ready = True, is_closed = (\<lambda>i::nat. 2 \<le> i)\<rparr>"
  have init: "Bot_init [] ?st ?cfg [] = Inr (?b, [HeartbeatLoop])"
    by (simp add: Bot_init_def config_path_def bind_result_def getitem_def)
  have n: "\<not> becomes_ready ?never" by simp
  have ro: "becomes_ready ?open" by simp
  have ao: "becomes_ready ?open \<and> (\<forall>j. j < 3 \<longrightarrow> \<not> is_closed ?open j)"
    by simp
  have r: "becomes_ready ?gw" and o0: "\<not> is_closed ?gw 0" and o1: "\<not> is_closed ?gw 1"
    and c2: "is_closed ?gw 2"
    by simp_all
  have a: "becomes_ready ?gw \<and> (\<forall>j. j < 2 \<longrightarrow> \<not> is_closed ?gw j) \<and> is_closed ?gw 2"
    by simp
  note t = heartbeat_loop_lifecycle [THEN conjunct2]
  have w: "heartbeat_loop 4 ?never = ([WaitUntilReady], Suspended)"
    by (rule t [THEN conjunct1, THEN mp, OF n])
  note still = t [THEN conjunct2, THEN conjunct1, THEN mp, OF ao]
  from still [THEN conjunct1]
  have s3: "heartbeat_loop 3 ?open =
      ([WaitUntilReady, Dispatch ''heartbeat'', Sleep 10, Dispatch ''heartbeat'', Sleep 10,
        Dispatch ''heartbeat'', Sleep 10], Suspended)"
    by (simp add: eval_nat_numeral)
  have h3: "heartbeats (fst (heartbeat_loop 3 ?open)) = 3"
    by (rule still [THEN conjunct2])
  note run = t [THEN conjunct2, THEN conjunct2, THEN mp, OF a]
  have "heartbeat_loop 1 ?gw =
      (WaitUntilReady # concat (replicate 1 [Dispatch ''heartbeat'', Sleep 10]), Suspended)"
    by (rule run [THEN conjunct1, THEN mp]) simp
  then have s1: "heartbeat_loop 1 ?gw =
      ([WaitUntilReady, Dispatch ''heartbeat'', Sleep 10], Suspended)"
    by simp
  have late: "heartbeat_loop 7 ?gw =
      (WaitUntilReady # concat (replicate 2 [Dispatch ''heartbeat'', Sleep 10]), Returned)
      \<and> heartbeats (fst (heartbeat_loop 7 ?gw)) = 2"
    by (rule run [THEN conjunct2, THEN mp]) simp
  from late have s7: "heartbeat_loop 7 ?gw =
      ([WaitUntilReady, Dispatch ''heartbeat'', Sleep 10, Dispatch ''heartbeat'', Sleep 10],
       Returned)"
    by (simp add: eval_nat_numeral)
  from late have h7: "heartbeats (fst (heartbeat_loop 7 ?gw)) = 2"
    by (rule conjunct2)
  show ?thesis by (intro conjI init n w ro s3 h3 r o0 o1 c2 s1 s7 h7)
qed

text \<open>
  C10: a trace of the coroutine is the wait for readiness followed by whole iterations,
  each one the \<^verbatim>\<open>heartbeat\<close> event and then the sleep. So when the gateway becomes ready
  and the connection is open at the first test, the first \<^verbatim>\<open>heartbeat\<close> event comes
  right after the wait, before any sleep.
\<close>

theorem first_heartbeat_before_sleep:
  "(\<exists>n st. heartbeat_loop fuel gw =
       (WaitUntilReady # concat (replicate n [Dispatch ''heartbeat'', Sleep 10]), st))
   \<and> (becomes_ready gw \<and> \<not> is_closed gw 0 \<and> 0 < fuel \<longrightarrow>
        (\<exists>rest st. heartbeat_loop fuel gw =
           (WaitUntilReady # Dispatch ''heartbeat'' # Sleep 10 # rest, st)))"
proof (intro conjI impI)
  show "\<exists>n st. heartbeat_loop fuel gw =
       (WaitUntilReady # concat (replicate n [Dispatch ''heartbeat'', Sleep 10]), st)"
  proof (cases "becomes_ready gw")
    case True
    from heartbeat_while_shape [of fuel "is_closed gw" 0] obtain n st where
      "heartbeat_while fuel (is_closed gw) 0 =
         (concat (replicate n [Dispatch ''heartbeat'', Sleep 10]), st)"
      by blast
    with True have "heartbeat_loop fuel gw =
        (WaitUntilReady # concat (replicate n [Dispatch ''heartbeat'', Sleep 10]), st)"
      by (simp add: heartbeat_loop_def)
    then show ?thesis by blast
  next
    case False
    then have "heartbeat_loop fuel gw =
        (WaitUntilReady # concat (replicate 0 [Dispatch ''heartbeat'', Sleep 10]), Suspended)"
      by (simp add: heartbeat_loop_def)
    then show ?thesis by blast
  qed
next
  assume a: "becomes_ready gw \<and> \<not> is_closed gw 0 \<and> 0 < fuel"
  then obtain f where f: "fuel = Suc f" by (cases fuel) auto
  obtain rest st where w: "heartbeat_while f (is_closed gw) (Suc 0) = (rest, st)"
    by (cases "heartbeat_while f (is_closed gw) (Suc 0)")
  from a f w have "heartbeat_loop fuel gw =
      (WaitUntilReady # Dispatch ''heartbeat'' # Sleep 10 # rest, st)"
    by (simp add: heartbeat_loop_def)
  then show "\<exists>rest st. heartbeat_loop fuel gw =
      (WaitUntilReady # Dispatch ''heartbeat'' # Sleep 10 # rest, st)"
    by blast
qed

theorem first_heartbeat_before_sleep_witness:
  "becomes_ready \<lparr>becomes_ready = True, is_closed = (\<lambda>i. False)\<rparr>
   \<and> \<not> is_closed \<lparr>becomes_ready = True, is_closed = (\<lambda>i. False)\<rparr> 0
   \<and> (0::nat) < 3
   \<and> (\<exists>rest st. heartbeat_loop 3 \<lparr>becomes_ready = True, is_closed = (\<lambda>i. False)\<rparr> =
         (WaitUntilReady # Dispatch ''heartbeat'' # Sleep 10 # rest, st))
   \<and> heartbeat_loop 3 \<lparr>becomes_ready = True, is_closed = (\<lambda>i. False)\<rparr> =
       ([WaitUntilReady, Dispatch ''heartbeat'', Sleep 10, Dispatch ''heartbeat'', Sleep 10,
         Dispatch ''heartbeat'', Sleep 10], Suspended)"
proof -
  let ?gw = "\<lparr>becomes_ready = True, is_closed = (\<lambda>i::nat. False)\<rparr>"
  have r: "becomes_ready ?gw" and o: "\<not> is_closed ?gw 0" and f: "(0::nat) < 3"
    by simp_all
  have a: "becomes_ready ?gw \<and> \<not> is_closed ?gw 0 \<and> (0::nat) < 3"
    by simp
  have first: "\<exists>rest st. heartbeat_loop 3 ?gw =
      (WaitUntilReady # Dispatch ''heartbeat'' # Sleep 10 # rest, st)"
    by (rule first_heartbeat_before_sleep [THEN conjunct2, THEN mp, OF a])
  have run: "heartbeat_loop 3 ?gw =
      ([WaitUntilReady, Dispatch ''heartbeat'', Sleep 10, Dispatch ''heartbeat'', Sleep 10,
        Dispatch ''heartbeat'', Sleep 10], Suspended)"
    by (simp add: heartbeat_loop_def eval_nat_numeral)
  show ?thesis by (intro conjI r o f first run)
qed

end
